theory Spec2Isabelle
  imports Main "HOL-Library.Word" "HOL-Library.Char_ord" "HOL-Library.List_Lexorder"
begin

section \<open>Rolling control-plane upgrade: \<^verbatim>\<open>pkg/upgrade/control_plane.go\<close>\<close>

text \<open>
  A shallow embedding of the control-plane upgrader. Pure helpers are HOL functions.
  A Go run-time panic (slice bounds, nil dereference, write to a nil map) is a value
  of type \<open>panic\<close>, returned on the left of a sum.
\<close>

subsection \<open>Panics and Go slicing\<close>

datatype panic = SliceBoundsOutOfRange | NilPointerDereference | NilMapAssignment

text \<open>
  \<^verbatim>\<open>s[0:hi]\<close> on a Go string: the bound is an \<^verbatim>\<open>int\<close>; a negative bound or one beyond
  \<^verbatim>\<open>len(s)\<close> panics.
\<close>

definition slice_to :: "string \<Rightarrow> int \<Rightarrow> panic + string" where
  "slice_to s hi =
     (if hi < 0 \<or> int (length s) < hi then Inl SliceBoundsOutOfRange
      else Inr (take (nat hi) s))"

subsection \<open>Name generator\<close>

text \<open>\<^verbatim>\<open>validation.DNS1123SubdomainMaxLength\<close> of apimachinery.\<close>

definition DNS1123SubdomainMaxLength :: int where
  "DNS1123SubdomainMaxLength = 253"

definition isDigit :: "char \<Rightarrow> bool" where
  "isDigit c = (c \<in> set ''0123456789'')"

text \<open>
  Modelled from the spec: \<^verbatim>\<open>upgradeIDInputRegex\<close> is declared in a file of the package
  that is not part of the sources at hand. The spec gives the pattern as \<^verbatim>\<open>^[0-9]+$\<close>.
\<close>

definition upgradeIDInputRegex_MatchString :: "string \<Rightarrow> bool" where
  "upgradeIDInputRegex_MatchString s = (s \<noteq> [] \<and> list_all isDigit s)"

text \<open>
  Modelled from the spec: \<^verbatim>\<open>upgradeIDNameSuffixRegex\<close> is declared in a file of the
  package that is not part of the sources at hand. The spec calls it the
  upgrade-id-suffix tail, and \<^verbatim>\<open>generateReplacementMachineName\<close> cuts the name one
  character before the match, which is the dot of \<^verbatim>\<open>.upgrade.<id>\<close>: the pattern is
  \<^verbatim>\<open>upgrade\.[0-9]+$\<close>. \<open>matchesSuffixTail s\<close> says that the whole of \<open>s\<close> is
  \<^verbatim>\<open>upgrade.\<close> followed by one or more digits; \<^verbatim>\<open>FindStringIndex\<close> returns the
  leftmost position from which the rest of the string is such a tail, with the end of
  the match, or nothing (\<^verbatim>\<open>nil\<close>).
\<close>

definition matchesSuffixTail :: "string \<Rightarrow> bool" where
  "matchesSuffixTail s =
     (take 8 s = ''upgrade.'' \<and> drop 8 s \<noteq> [] \<and> list_all isDigit (drop 8 s))"

fun findSuffixTailFrom :: "nat \<Rightarrow> string \<Rightarrow> (nat \<times> nat) option" where
  "findSuffixTailFrom i [] = None"
| "findSuffixTailFrom i (c # cs) =
     (if matchesSuffixTail (c # cs) then Some (i, i + length (c # cs))
      else findSuffixTailFrom (Suc i) cs)"

definition upgradeIDNameSuffixRegex_FindStringIndex :: "string \<Rightarrow> (nat \<times> nat) option" where
  "upgradeIDNameSuffixRegex_FindStringIndex s = findSuffixTailFrom 0 s"

definition upgradeSuffix :: "string \<Rightarrow> string" where
  "upgradeSuffix upgradeID = ''.upgrade.'' @ upgradeID"

text \<open>
  \<^verbatim>\<open>generateReplacementMachineName(original, upgradeID)\<close>. \<^verbatim>\<open>index\<close>, \<^verbatim>\<open>excess\<close> and
  \<^verbatim>\<open>max\<close> are Go \<^verbatim>\<open>int\<close>s; both slicings can panic.
\<close>

definition generateReplacementMachineName :: "string \<Rightarrow> string \<Rightarrow> panic + string" where
  "generateReplacementMachineName original upgradeID =
     (let machineSuffix = upgradeSuffix upgradeID in
      case (case upgradeIDNameSuffixRegex_FindStringIndex original of
              None \<Rightarrow> Inr original
            | Some match \<Rightarrow> slice_to original (int (fst match) - 1)) of
        Inl p \<Rightarrow> Inl p
      | Inr machineName \<Rightarrow>
          (let excess = int (length machineName) + int (length machineSuffix)
                          - DNS1123SubdomainMaxLength
           in if excess > 0
              then (case slice_to machineName (int (length machineName) - excess) of
                      Inl p \<Rightarrow> Inl p
                    | Inr truncated \<Rightarrow> Inr (truncated @ machineSuffix))
              else Inr (machineName @ machineSuffix)))"

text \<open>Sequencing of two steps that can panic: the second runs on the first's result.\<close>

definition andThen :: "panic + 'a \<Rightarrow> ('a \<Rightarrow> panic + 'b) \<Rightarrow> panic + 'b" where
  "andThen r f = (case r of Inl p \<Rightarrow> Inl p | Inr x \<Rightarrow> f x)"

subsection \<open>Errors\<close>

text \<open>
  Go \<^verbatim>\<open>error\<close> values. \<open>NotFound\<close> and \<open>AlreadyExists\<close> are the API status errors that
  \<^verbatim>\<open>apierrors.IsNotFound\<close> and \<^verbatim>\<open>apierrors.IsAlreadyExists\<close> recognise; they look at the
  error itself, so a wrapped error is neither. \<open>Failure\<close> is any other error with its
  message, \<open>Wrap\<close> is \<^verbatim>\<open>errors.Wrap\<close>/\<^verbatim>\<open>Wrapf\<close>, \<open>WithStack\<close> is \<^verbatim>\<open>errors.WithStack\<close>
  and \<open>ErrWaitTimeout\<close> is \<^verbatim>\<open>wait.ErrWaitTimeout\<close>.
\<close>

datatype error =
    NotFound
  | AlreadyExists
  | Failure string
  | Wrap error string
  | WithStack error
  | ErrWaitTimeout

definition IsNotFound :: "error option \<Rightarrow> bool" where
  "IsNotFound err = (err = Some NotFound)"

definition IsAlreadyExists :: "error option \<Rightarrow> bool" where
  "IsAlreadyExists err = (err = Some AlreadyExists)"

subsection \<open>Strings and numbers\<close>

text \<open>\<^verbatim>\<open>strings.Join(elems, sep)\<close>.\<close>

fun Join :: "string list \<Rightarrow> string \<Rightarrow> string" where
  "Join [] sep = []"
| "Join [x] sep = x"
| "Join (x # y # ys) sep = x @ sep @ Join (y # ys) sep"

text \<open>\<^verbatim>\<open>strings.HasSuffix(s, suffix)\<close>.\<close>

definition HasSuffix :: "string \<Rightarrow> string \<Rightarrow> bool" where
  "HasSuffix s suffix =
     (length suffix \<le> length s \<and> drop (length s - length suffix) s = suffix)"

definition digitChar :: "nat \<Rightarrow> char" where
  "digitChar d = ''0123456789abcdefghijklmnopqrstuvwxyz'' ! d"

text \<open>
  \<^verbatim>\<open>strconv.FormatUint(i, base)\<close> for a base from 2 to 36; it is also what the verb
  \<^verbatim>\<open>%d\<close> prints for an unsigned integer (base 10).
\<close>

function FormatUint :: "nat \<Rightarrow> nat \<Rightarrow> string" where
  "FormatUint i base =
     (if base < 2 \<or> i < base then [digitChar i]
      else FormatUint (i div base) base @ [digitChar (i mod base)])"
  by pat_completeness auto
termination
  by (relation "measure (\<lambda>(i, base). i)") auto

declare FormatUint.simps [simp del]

subsection \<open>Semantic versions (\<^verbatim>\<open>github.com/blang/semver\<close>)\<close>

text \<open>
  \<^verbatim>\<open>semver.Version\<close> and \<^verbatim>\<open>semver.PRVersion\<close> as the library declares them: the three
  numbers are \<^verbatim>\<open>uint64\<close>. \<^verbatim>\<open>Compare\<close> ignores the build metadata, and \<^verbatim>\<open>EQ\<close>, \<^verbatim>\<open>LT\<close>
  and \<^verbatim>\<open>GT\<close> test its result against 0, -1 and 1.
\<close>

record PRVersion =
  VersionStr :: string
  VersionNum :: "64 word"
  IsNum :: bool

record Version =
  Major :: "64 word"
  Minor :: "64 word"
  Patch :: "64 word"
  Pre :: "PRVersion list"
  Build :: "string list"

text \<open>\<^verbatim>\<open>var unsetVersion semver.Version\<close>: the zero value.\<close>

definition unsetVersion :: Version where
  "unsetVersion = \<lparr>Major = 0, Minor = 0, Patch = 0, Pre = [], Build = []\<rparr>"

definition PRVersion_Compare :: "PRVersion \<Rightarrow> PRVersion \<Rightarrow> int" where
  "PRVersion_Compare v other =
     (if IsNum v \<and> \<not> IsNum other then - 1
      else if \<not> IsNum v \<and> IsNum other then 1
      else if IsNum v \<and> IsNum other then
        (if VersionNum v = VersionNum other then 0
         else if VersionNum v > VersionNum other then 1 else - 1)
      else
        (if VersionStr v = VersionStr other then 0
         else if VersionStr v > VersionStr other then 1 else - 1))"

text \<open>
  The loop of \<^verbatim>\<open>Compare\<close> over the two prerelease lists, entered only when both are
  non-empty: the first differing pair decides, then the shorter list is the smaller.
\<close>

fun comparePre :: "PRVersion list \<Rightarrow> PRVersion list \<Rightarrow> int" where
  "comparePre [] [] = 0"
| "comparePre [] (y # ys) = - 1"
| "comparePre (x # xs) [] = 1"
| "comparePre (x # xs) (y # ys) =
     (let comp = PRVersion_Compare x y
      in if comp = 0 then comparePre xs ys else if comp = 1 then 1 else - 1)"

definition Version_Compare :: "Version \<Rightarrow> Version \<Rightarrow> int" where
  "Version_Compare v other =
     (if Major v \<noteq> Major other then (if Major v > Major other then 1 else - 1)
      else if Minor v \<noteq> Minor other then (if Minor v > Minor other then 1 else - 1)
      else if Patch v \<noteq> Patch other then (if Patch v > Patch other then 1 else - 1)
      else if Pre v = [] \<and> Pre other = [] then 0
      else if Pre v = [] \<and> Pre other \<noteq> [] then 1
      else if Pre v \<noteq> [] \<and> Pre other = [] then - 1
      else comparePre (Pre v) (Pre other))"

definition EQ :: "Version \<Rightarrow> Version \<Rightarrow> bool" where
  "EQ v other = (Version_Compare v other = 0)"

definition LT :: "Version \<Rightarrow> Version \<Rightarrow> bool" where
  "LT v other = (Version_Compare v other = - 1)"

definition GT :: "Version \<Rightarrow> Version \<Rightarrow> bool" where
  "GT v other = (Version_Compare v other = 1)"

definition PRVersion_String :: "PRVersion \<Rightarrow> string" where
  "PRVersion_String v = (if IsNum v then FormatUint (unat (VersionNum v)) 10 else VersionStr v)"

definition Version_String :: "Version \<Rightarrow> string" where
  "Version_String v =
     FormatUint (unat (Major v)) 10 @ ''.'' @ FormatUint (unat (Minor v)) 10 @ ''.''
       @ FormatUint (unat (Patch v)) 10
       @ (if Pre v \<noteq> [] then ''-'' @ Join (map PRVersion_String (Pre v)) ''.'' else [])
       @ (if Build v \<noteq> [] then ''+'' @ Join (Build v) ''.'' else [])"

subsection \<open>Objects of the two clusters\<close>

text \<open>
  The fields of the Kubernetes and cluster-api objects that the upgrader reads or
  writes. A Go pointer or map that may be \<^verbatim>\<open>nil\<close> is an \<open>option\<close>.
\<close>

record ObjectKey =
  key_Namespace :: string
  key_Name :: string

record ObjectReference =
  ref_APIVersion :: string
  ref_Kind :: string
  ref_Namespace :: string
  ref_Name :: string

record OwnerReference =
  own_APIVersion :: string
  own_Kind :: string
  own_Name :: string
  own_UID :: string

record Machine =
  m_Name :: string
  m_Namespace :: string
  m_ResourceVersion :: string
  m_Annotations :: "(string \<rightharpoonup> string) option"
  m_ProviderID :: "string option"
  m_Version :: "string option"
  m_InfrastructureRef :: ObjectReference
  m_BootstrapData :: "string option"
  m_BootstrapConfigRef :: ObjectReference

text \<open>A schema-opaque infrastructure object (\<^verbatim>\<open>unstructured.Unstructured\<close>).\<close>

record Unstructured =
  un_APIVersion :: string
  un_Kind :: string
  un_Namespace :: string
  un_Name :: string
  un_ResourceVersion :: string
  un_OwnerReferences :: "OwnerReference list"
  un_SpecProviderID :: "string option"
  un_Other :: "(string \<times> string) list"

record NodeRegistrationOptions =
  nr_Name :: string
  nr_CRISocket :: string

record InitConfiguration =
  ic_NodeRegistration :: NodeRegistrationOptions
  ic_Other :: string

record JoinControlPlane =
  jcp_LocalAPIEndpoint :: string

record JoinConfiguration =
  jc_NodeRegistration :: NodeRegistrationOptions
  jc_ControlPlane :: "JoinControlPlane option"
  jc_Other :: string

record KubeadmConfig =
  kc_Name :: string
  kc_Namespace :: string
  kc_ResourceVersion :: string
  kc_UID :: string
  kc_OwnerReferences :: "OwnerReference list"
  kc_InitConfiguration :: "InitConfiguration option"
  kc_JoinConfiguration :: "JoinConfiguration option"

record Secret =
  sec_Name :: string
  sec_Namespace :: string
  sec_OwnerReferences :: "OwnerReference list"

record NodeAddress =
  addr_Type :: string
  addr_Address :: string

record Node =
  n_Name :: string
  n_ProviderID :: string
  n_Addresses :: "NodeAddress list"

record PodCondition =
  cond_Type :: string
  cond_Status :: string

record Pod =
  p_Name :: string
  p_Namespace :: string
  p_PodIP :: string
  p_Conditions :: "PodCondition list"

record ConfigMap =
  cm_Name :: string
  cm_ResourceVersion :: string
  cm_Data :: "(string \<rightharpoonup> string) option"

text \<open>\<^verbatim>\<open>noderefutil.ProviderID\<close>: the parsed form of a node's or machine's provider id.\<close>

record ProviderID =
  pid_original :: string
  pid_cloudProvider :: string
  pid_id :: string

definition Equals :: "ProviderID \<Rightarrow> ProviderID \<Rightarrow> bool" where
  "Equals p other = (pid_cloudProvider p = pid_cloudProvider other \<and> pid_id p = pid_id other)"

record etcdMember =
  em_ID :: "64 word"
  em_Name :: string
  em_ClientURLs :: "string list"

text \<open>
  \<^verbatim>\<open>kubernetes2.PodExecInput\<close>; the REST configuration and the client that the Go value
  also holds are the upgrader's own and the same in every call.
\<close>

record PodExecInput =
  exec_Namespace :: string
  exec_Name :: string
  exec_Command :: "string list"

subsection \<open>The world outside the upgrader\<close>

text \<open>
  Every call that leaves the process is an entry of the trace: the call with its
  arguments and the error it returned. What a call returns is decided by the world, a
  record of oracles, one for each kind of call; an oracle is given the number of calls
  made before, so the same call can be answered differently as the clusters change
  under the upgrader. Library functions that compute without leaving the process
  (parsing of provider ids, of versions and of etcdctl's JSON) are oracles without a
  clock. \<open>w_ticks\<close> is the number of times a poll started at the given moment tries its
  condition again before the deadline passes.
\<close>

datatype obj =
    MachineObj Machine
  | KubeadmConfigObj KubeadmConfig
  | SecretObj Secret
  | UnstructuredObj Unstructured

datatype call =
    GetUnstructured ObjectReference
  | GetMachine ObjectKey
  | GetKubeadmConfig ObjectKey
  | GetSecret ObjectKey
  | Create obj
  | Delete obj
  | NewHelper obj
  | Patch obj
  | NodesList
  | PodsGet string
  | PodsList string
  | PodExec PodExecInput
  | ConfigMapsGet string
  | ConfigMapsCreate ConfigMap

type_synonym event = "call \<times> error option"

type_synonym trace = "event list"

record world =
  w_NewProviderID :: "string \<Rightarrow> error + ProviderID"
  w_ParseTolerant :: "string \<Rightarrow> error + Version"
  w_UnmarshalMembers :: "string \<Rightarrow> error + etcdMember list"
  w_GetUnstructured :: "nat \<Rightarrow> ObjectReference \<Rightarrow> error + Unstructured"
  w_GetMachine :: "nat \<Rightarrow> ObjectKey \<Rightarrow> error + Machine"
  w_GetKubeadmConfig :: "nat \<Rightarrow> ObjectKey \<Rightarrow> error + KubeadmConfig"
  w_GetSecret :: "nat \<Rightarrow> ObjectKey \<Rightarrow> error + Secret"
  w_CreateMachine :: "nat \<Rightarrow> Machine \<Rightarrow> error option"
  w_CreateUnstructured :: "nat \<Rightarrow> Unstructured \<Rightarrow> error option"
  w_CreateKubeadmConfig :: "nat \<Rightarrow> KubeadmConfig \<Rightarrow> error + KubeadmConfig"
  w_DeleteMachine :: "nat \<Rightarrow> Machine \<Rightarrow> error option"
  w_NewHelper :: "nat \<Rightarrow> obj \<Rightarrow> error option"
  w_Patch :: "nat \<Rightarrow> obj \<Rightarrow> error option"
  w_NodesList :: "nat \<Rightarrow> error + Node list"
  w_PodsGet :: "nat \<Rightarrow> string \<Rightarrow> error + Pod"
  w_PodsList :: "nat \<Rightarrow> string \<Rightarrow> error + Pod list"
  w_PodExec :: "nat \<Rightarrow> PodExecInput \<Rightarrow> string \<times> string \<times> error option"
  w_ConfigMapsGet :: "nat \<Rightarrow> string \<Rightarrow> ConfigMap option \<times> error option"
  w_ConfigMapsCreate :: "nat \<Rightarrow> ConfigMap \<Rightarrow> error option"
  w_ticks :: "nat \<Rightarrow> nat"

definition errorOf :: "error + 'a \<Rightarrow> error option" where
  "errorOf r = (case r of Inl err \<Rightarrow> Some err | Inr x \<Rightarrow> None)"

subsection \<open>The upgrader\<close>

text \<open>
  The fields of \<^verbatim>\<open>ControlPlaneUpgrader\<close> that the functions below read or write. A Go
  map read at a missing key gives the zero value: \<open>lookupString\<close>.
\<close>

record ControlPlaneUpgrader =
  desiredVersion :: Version
  clusterNamespace :: string
  clusterName :: string
  providerIDsToNodes :: "string \<rightharpoonup> Node"
  upgradeID :: string
  oldNodeToEtcdMember :: "string \<rightharpoonup> string"
  secretsUpdated :: bool

definition lookupString :: "(string \<rightharpoonup> string) \<Rightarrow> string \<Rightarrow> string" where
  "lookupString m k = (case m k of None \<Rightarrow> [] | Some v \<Rightarrow> v)"

definition AnnotationUpgradeID :: string where
  "AnnotationUpgradeID = ''upgrade.cluster-api.vmware.com/'' @ ''id''"

definition etcdCACertFile :: string where
  "etcdCACertFile = ''/etc/kubernetes/pki/etcd/ca.crt''"

definition etcdCertFile :: string where
  "etcdCertFile = ''/etc/kubernetes/pki/etcd/peer.crt''"

definition etcdKeyFile :: string where
  "etcdKeyFile = ''/etc/kubernetes/pki/etcd/peer.key''"

subsection \<open>Object store probe and node index\<close>

text \<open>\<^verbatim>\<open>resourceExists(ref)\<close>: one \<^verbatim>\<open>Get\<close> of the referenced object into an unstructured value.\<close>

definition resourceExists ::
  "world \<Rightarrow> ObjectReference \<Rightarrow> trace \<Rightarrow> (bool \<times> error option) \<times> trace" where
  "resourceExists w ref tr =
     (let err = errorOf (w_GetUnstructured w (length tr) ref);
          tr' = tr @ [(GetUnstructured ref, err)]
      in case err of
           Some e \<Rightarrow>
             (if IsNotFound (Some e) then ((False, None), tr')
              else ((False, Some (WithStack e)), tr'))
         | None \<Rightarrow> ((True, None), tr'))"

definition NodeHostName :: string where
  "NodeHostName = ''Hostname''"

fun hostnameForAddresses :: "NodeAddress list \<Rightarrow> string" where
  "hostnameForAddresses [] = []"
| "hostnameForAddresses (address # rest) =
     (if addr_Type address = NodeHostName then addr_Address address
      else hostnameForAddresses rest)"

definition hostnameForNode :: "Node \<Rightarrow> string" where
  "hostnameForNode node = hostnameForAddresses (n_Addresses node)"

definition GetNodeFromProviderID :: "ControlPlaneUpgrader \<Rightarrow> string \<Rightarrow> Node option" where
  "GetNodeFromProviderID u providerID = providerIDsToNodes u providerID"

text \<open>The loop of \<^verbatim>\<open>UpdateProviderIDsToNodes\<close>: a later node replaces an earlier one with the same key.\<close>

fun providerIDPairs :: "world \<Rightarrow> Node list \<Rightarrow> (string \<rightharpoonup> Node) \<Rightarrow> (string \<rightharpoonup> Node)" where
  "providerIDPairs w [] pairs = pairs"
| "providerIDPairs w (node # rest) pairs =
     (let id = (case w_NewProviderID w (n_ProviderID node) of
                  Inr providerID \<Rightarrow> pid_id providerID
                | Inl err \<Rightarrow> n_ProviderID node)
      in providerIDPairs w rest (pairs(id \<mapsto> node)))"

definition UpdateProviderIDsToNodes ::
  "world \<Rightarrow> ControlPlaneUpgrader \<Rightarrow> trace \<Rightarrow> (error option \<times> ControlPlaneUpgrader) \<times> trace" where
  "UpdateProviderIDsToNodes w u tr =
     (let r = w_NodesList w (length tr);
          tr' = tr @ [(NodesList, errorOf r)]
      in case r of
           Inl err \<Rightarrow> ((Some (Wrap err ''error listing nodes''), u), tr')
         | Inr nodes \<Rightarrow>
             ((None, u\<lparr>providerIDsToNodes := providerIDPairs w nodes Map.empty\<rparr>), tr'))"

subsection \<open>Etcd controller\<close>

text \<open>The \<^verbatim>\<open>PodExecInput\<close> that \<^verbatim>\<open>etcdctlForPod\<close> builds for a pod and the caller's arguments.\<close>

definition etcdctlForPod_opts :: "Pod \<Rightarrow> string list \<Rightarrow> PodExecInput" where
  "etcdctlForPod_opts pod args =
     (let endpoint = ''https://'' @ p_PodIP pod @ '':2379'';
          fullArgs = [''ETCDCTL_API=3'', ''etcdctl'',
                      ''--cacert'', etcdCACertFile,
                      ''--cert'', etcdCertFile,
                      ''--key'', etcdKeyFile,
                      ''--endpoints'', endpoint];
          fullArgs = fullArgs @ args;
          opts = \<lparr>exec_Namespace = p_Namespace pod, exec_Name = p_Name pod,
                  exec_Command = [''sh'', ''-c'', Join fullArgs '' '']\<rparr>
      in opts\<lparr>exec_Command := exec_Command opts @ args\<rparr>)"

definition etcdctlForPod ::
  "world \<Rightarrow> Pod \<Rightarrow> string list \<Rightarrow> trace \<Rightarrow> (string \<times> string \<times> error option) \<times> trace" where
  "etcdctlForPod w pod args tr =
     (let opts = etcdctlForPod_opts pod args;
          r = w_PodExec w (length tr) opts
      in (r, tr @ [(PodExec opts, snd (snd r))]))"

text \<open>
  The loop of \<^verbatim>\<open>etcdctl\<close> over the pods: the first success is returned, and after the
  last pod the last result.
\<close>

fun etcdctl_pods ::
  "world \<Rightarrow> Pod list \<Rightarrow> string list \<Rightarrow> string \<times> string \<times> error option \<Rightarrow> trace
     \<Rightarrow> (string \<times> string \<times> error option) \<times> trace" where
  "etcdctl_pods w [] args previous tr = (previous, tr)"
| "etcdctl_pods w (pod # rest) args previous tr =
     (case etcdctlForPod w pod args tr of
        ((stdout, stderr, None), tr') \<Rightarrow> ((stdout, stderr, None), tr')
      | ((stdout, stderr, Some err), tr') \<Rightarrow>
          etcdctl_pods w rest args (stdout, stderr, Some err) tr')"

definition listEtcdPods :: "world \<Rightarrow> trace \<Rightarrow> (error + Pod list) \<times> trace" where
  "listEtcdPods w tr =
     (let r = w_PodsList w (length tr) ''component=etcd'';
          tr' = tr @ [(PodsList ''component=etcd'', errorOf r)]
      in case r of
           Inl err \<Rightarrow> (Inl (Wrap err ''error listing pods''), tr')
         | Inr items \<Rightarrow> (Inr items, tr'))"

definition etcdctl ::
  "world \<Rightarrow> string list \<Rightarrow> trace \<Rightarrow> (string \<times> string \<times> error option) \<times> trace" where
  "etcdctl w args tr =
     (case listEtcdPods w tr of
        (Inl err, tr') \<Rightarrow> (([], [], Some err), tr')
      | (Inr pods, tr') \<Rightarrow>
          (if length pods = 0 then (([], [], Some (Failure ''found 0 etcd pods'')), tr')
           else etcdctl_pods w pods args ([], [], None) tr'))"

definition listEtcdMembers :: "world \<Rightarrow> trace \<Rightarrow> (error + etcdMember list) \<times> trace" where
  "listEtcdMembers w tr =
     (case etcdctl w [''member list -w json''] tr of
        ((stdout, stderr, Some err), tr') \<Rightarrow> (Inl err, tr')
      | ((stdout, stderr, None), tr') \<Rightarrow>
          (case w_UnmarshalMembers w stdout of
             Inl err \<Rightarrow>
               (Inl (Wrap err ''unable to parse etcdctl member list json output''), tr')
           | Inr members \<Rightarrow> (Inr members, tr')))"

fun memberIds :: "etcdMember list \<Rightarrow> (string \<rightharpoonup> string) \<Rightarrow> (string \<rightharpoonup> string)" where
  "memberIds [] m = m"
| "memberIds (member # rest) m =
     memberIds rest (m(em_Name member \<mapsto> FormatUint (unat (em_ID member)) 16))"

definition oldNodeToEtcdMemberId ::
  "world \<Rightarrow> ControlPlaneUpgrader \<Rightarrow> trace \<Rightarrow> (error option \<times> ControlPlaneUpgrader) \<times> trace" where
  "oldNodeToEtcdMemberId w u tr =
     (case listEtcdMembers w tr of
        (Inl err, tr') \<Rightarrow> ((Some err, u), tr')
      | (Inr members, tr') \<Rightarrow>
          ((None, u\<lparr>oldNodeToEtcdMember := memberIds members Map.empty\<rparr>), tr'))"

definition deleteEtcdMember :: "world \<Rightarrow> string \<Rightarrow> trace \<Rightarrow> error option \<times> trace" where
  "deleteEtcdMember w etcdMemberId tr =
     (case etcdctl w [''member'', ''remove'', etcdMemberId] tr of
        ((stdout, stderr, err), tr') \<Rightarrow> (err, tr'))"

definition etcdClusterHealthCheck :: "world \<Rightarrow> trace \<Rightarrow> error option \<times> trace" where
  "etcdClusterHealthCheck w tr =
     (case listEtcdMembers w tr of
        (Inl err, tr') \<Rightarrow> (Some err, tr')
      | (Inr members, tr') \<Rightarrow>
          (let endpoints = concat (map em_ClientURLs members)
           in case etcdctl w [''endpoint health --endpoints'', Join endpoints '',''] tr' of
                ((stdout, stderr, err), tr'') \<Rightarrow> (err, tr'')))"

subsection \<open>Convergence waiter\<close>

text \<open>
  \<^verbatim>\<open>wait.PollImmediate(interval, timeout, condition)\<close>: the condition is tried at once and
  then once per tick until it is done, fails, or the deadline has passed. A condition
  gives \<open>Inl err\<close> for an error, \<open>Inr None\<close> for \<open>(false, nil)\<close> and \<open>Inr (Some x)\<close> for
  \<open>(true, nil)\<close>, where \<open>x\<close> is what the closure has stored in the caller's variable. The
  first argument is the number of ticks the world leaves before the deadline.
\<close>

fun PollImmediate ::
  "nat \<Rightarrow> (trace \<Rightarrow> (error + 'a option) \<times> trace) \<Rightarrow> trace \<Rightarrow> (error + 'a) \<times> trace" where
  "PollImmediate 0 condition tr =
     (case condition tr of
        (Inl err, tr') \<Rightarrow> (Inl err, tr')
      | (Inr (Some x), tr') \<Rightarrow> (Inr x, tr')
      | (Inr None, tr') \<Rightarrow> (Inl ErrWaitTimeout, tr'))"
| "PollImmediate (Suc ticks) condition tr =
     (case condition tr of
        (Inl err, tr') \<Rightarrow> (Inl err, tr')
      | (Inr (Some x), tr') \<Rightarrow> (Inr x, tr')
      | (Inr None, tr') \<Rightarrow> PollImmediate ticks condition tr')"

definition waitForProviderID_condition ::
  "world \<Rightarrow> string \<Rightarrow> string \<Rightarrow> trace \<Rightarrow> (error + string option) \<times> trace" where
  "waitForProviderID_condition w ns name tr =
     (let key = \<lparr>key_Namespace = ns, key_Name = name\<rparr>;
          r = w_GetMachine w (length tr) key;
          tr' = tr @ [(GetMachine key, errorOf r)]
      in case r of
           Inl err \<Rightarrow> (Inr None, tr')
         | Inr machine \<Rightarrow>
             (case m_ProviderID machine of
                None \<Rightarrow> (Inr None, tr')
              | Some providerID \<Rightarrow>
                  (if providerID \<noteq> [] then (Inr (Some providerID), tr')
                   else (Inr None, tr'))))"

definition waitForProviderID ::
  "world \<Rightarrow> string \<Rightarrow> string \<Rightarrow> trace \<Rightarrow> (error + string) \<times> trace" where
  "waitForProviderID w ns name tr =
     (case PollImmediate (w_ticks w (length tr)) (waitForProviderID_condition w ns name) tr of
        (Inl err, tr') \<Rightarrow> (Inl (Wrap err ''timed out waiting for machine provider id''), tr')
      | (Inr providerID, tr') \<Rightarrow> (Inr providerID, tr'))"

fun findMatchingNode :: "world \<Rightarrow> ProviderID \<Rightarrow> Node list \<Rightarrow> Node option" where
  "findMatchingNode w providerID [] = None"
| "findMatchingNode w providerID (node # rest) =
     (case w_NewProviderID w (n_ProviderID node) of
        Inl err \<Rightarrow> findMatchingNode w providerID rest
      | Inr nodeID \<Rightarrow>
          (if Equals providerID nodeID then Some node
           else findMatchingNode w providerID rest))"

definition waitForMatchingNode_condition ::
  "world \<Rightarrow> ProviderID \<Rightarrow> trace \<Rightarrow> (error + Node option) \<times> trace" where
  "waitForMatchingNode_condition w providerID tr =
     (let r = w_NodesList w (length tr);
          tr' = tr @ [(NodesList, errorOf r)]
      in case r of
           Inl err \<Rightarrow> (Inr None, tr')
         | Inr nodes \<Rightarrow> (Inr (findMatchingNode w providerID nodes), tr'))"

definition waitForMatchingNode ::
  "world \<Rightarrow> string \<Rightarrow> trace \<Rightarrow> (error + Node) \<times> trace" where
  "waitForMatchingNode w rawProviderID tr =
     (case w_NewProviderID w rawProviderID of
        Inl err \<Rightarrow> (Inl err, tr)
      | Inr providerID \<Rightarrow>
          (case PollImmediate (w_ticks w (length tr))
                  (waitForMatchingNode_condition w providerID) tr of
             (Inl err, tr') \<Rightarrow> (Inl (Wrap err ''timed out waiting for matching node''), tr')
           | (Inr matchingNode, tr') \<Rightarrow> (Inr matchingNode, tr')))"

text \<open>
  The readiness predicate \<^verbatim>\<open>isReady(nodeHostname)\<close>: the four control-plane pods of the
  node are fetched in order; the first one that is missing, cannot be fetched or lacks
  a required condition with status \<^verbatim>\<open>True\<close> ends the check with false.
\<close>

definition requiredConditions :: "string list" where
  "requiredConditions = [''PodScheduled'', ''Initialized'', ''Ready'', ''ContainersReady'']"

definition missingConditions :: "Pod \<Rightarrow> string list" where
  "missingConditions pod =
     (let foundConditions =
            map cond_Type (filter (\<lambda>condition. cond_Status condition = ''True'')
                             (p_Conditions pod))
      in filter (\<lambda>c. c \<notin> set foundConditions) requiredConditions)"

fun isReady_components :: "world \<Rightarrow> string \<Rightarrow> string list \<Rightarrow> trace \<Rightarrow> bool \<times> trace" where
  "isReady_components w nodeHostname [] tr = (True, tr)"
| "isReady_components w nodeHostname (component # rest) tr =
     (let podName = component @ ''-'' @ nodeHostname;
          r = w_PodsGet w (length tr) podName;
          tr' = tr @ [(PodsGet podName, errorOf r)]
      in case r of
           Inl err \<Rightarrow> (False, tr')
         | Inr pod \<Rightarrow>
             (if length (missingConditions pod) > 0 then (False, tr')
              else isReady_components w nodeHostname rest tr'))"

definition components :: "string list" where
  "components = [''etcd'', ''kube-apiserver'', ''kube-scheduler'', ''kube-controller-manager'']"

definition isReady :: "world \<Rightarrow> string \<Rightarrow> trace \<Rightarrow> bool \<times> trace" where
  "isReady w nodeHostname tr = isReady_components w nodeHostname components tr"

definition waitForNodeReady_condition ::
  "world \<Rightarrow> string \<Rightarrow> trace \<Rightarrow> (error + unit option) \<times> trace" where
  "waitForNodeReady_condition w nodeHostname tr =
     (case isReady w nodeHostname tr of
        (ready, tr') \<Rightarrow> (Inr (if ready then Some () else None), tr'))"

definition waitForNodeReady :: "world \<Rightarrow> Node \<Rightarrow> trace \<Rightarrow> error option \<times> trace" where
  "waitForNodeReady w newNode tr =
     (let nodeHostname = hostnameForNode newNode
      in if nodeHostname = []
         then (Some (Failure (''unable to find hostname for node '' @ n_Name newNode)), tr)
         else (case PollImmediate (w_ticks w (length tr))
                      (waitForNodeReady_condition w nodeHostname) tr of
                 (Inl err, tr') \<Rightarrow>
                   (Some (Wrap err (''components on node '' @ n_Name newNode @ '' are not ready'')),
                    tr')
               | (Inr done, tr') \<Rightarrow> (None, tr')))"

subsection \<open>Replacing one machine\<close>

definition clusterv1_GroupVersion :: string where
  "clusterv1_GroupVersion = ''cluster.x-k8s.io/v1alpha2''"

definition bootstrapv1_GroupVersion :: string where
  "bootstrapv1_GroupVersion = ''bootstrap.cluster.x-k8s.io/v1alpha2''"

text \<open>The replacement that \<^verbatim>\<open>updateMachine\<close> derives from a deep copy of the old machine.\<close>

definition replacementMachineFor ::
  "ControlPlaneUpgrader \<Rightarrow> ObjectKey \<Rightarrow> Machine \<Rightarrow> Machine" where
  "replacementMachineFor u replacementKey machine =
     machine\<lparr>m_ResourceVersion := [],
             m_ProviderID := None,
             m_Name := key_Name replacementKey,
             m_InfrastructureRef :=
               (m_InfrastructureRef machine)\<lparr>ref_Name := key_Name replacementKey\<rparr>,
             m_BootstrapData := None,
             m_BootstrapConfigRef :=
               (m_BootstrapConfigRef machine)\<lparr>ref_Name := key_Name replacementKey\<rparr>,
             m_Version := Some (Version_String (desiredVersion u))\<rparr>"

text \<open>
  The branch of \<^verbatim>\<open>updateMachine\<close> on \<^verbatim>\<open>exists\<close>: create the replacement machine, or fetch
  the one that is there.
\<close>

definition createOrGetReplacement ::
  "world \<Rightarrow> ControlPlaneUpgrader \<Rightarrow> ObjectKey \<Rightarrow> Machine \<Rightarrow> bool \<Rightarrow> trace
     \<Rightarrow> error option \<times> trace" where
  "createOrGetReplacement w u replacementKey machine exists tr =
     (if \<not> exists then
        (let replacementMachine = replacementMachineFor u replacementKey machine;
             err = w_CreateMachine w (length tr) replacementMachine;
             tr' = tr @ [(Create (MachineObj replacementMachine), err)]
         in case err of
              Some e \<Rightarrow>
                (Some (Wrap e (''Error creating machine: '' @ m_Name replacementMachine)), tr')
            | None \<Rightarrow> (None, tr'))
      else
        (let r = w_GetMachine w (length tr) replacementKey;
             tr' = tr @ [(GetMachine replacementKey, errorOf r)]
         in case r of
              Inl e \<Rightarrow>
                (Some (Wrap e (''error getting replacement machine ''
                                 @ key_Namespace replacementKey @ ''/''
                                 @ key_Name replacementKey)), tr')
            | Inr replacementMachine \<Rightarrow> (None, tr')))"

text \<open>
  \<^verbatim>\<open>updateMachine(replacementKey, machine)\<close>. It returns the error (or \<^verbatim>\<open>nil\<close>), the
  upgrader, whose node index it refreshes, and the trace.
\<close>

definition updateMachine ::
  "world \<Rightarrow> ControlPlaneUpgrader \<Rightarrow> ObjectKey \<Rightarrow> Machine \<Rightarrow> trace
     \<Rightarrow> ((panic + error option) \<times> ControlPlaneUpgrader) \<times> trace" where
  "updateMachine w u replacementKey machine tr =
     (case m_ProviderID machine of
        None \<Rightarrow> ((Inl NilPointerDereference, u), tr)
      | Some rawProviderID \<Rightarrow>
     (case w_NewProviderID w rawProviderID of
        Inl err \<Rightarrow> ((Inr (Some err), u), tr)
      | Inr originalProviderID \<Rightarrow>
     (case GetNodeFromProviderID u (pid_id originalProviderID) of
        None \<Rightarrow>
          ((Inr (Some (Failure (''unknown previous node '' @ pid_original originalProviderID))),
            u), tr)
      | Some oldNode \<Rightarrow>
     (let oldHostName = hostnameForNode oldNode;
          replacementRef = \<lparr>ref_APIVersion = clusterv1_GroupVersion, ref_Kind = ''Machine'',
                            ref_Namespace = key_Namespace replacementKey,
                            ref_Name = key_Name replacementKey\<rparr>
      in
     (case resourceExists w replacementRef tr of
        ((exists, Some err), tr1) \<Rightarrow> ((Inr (Some err), u), tr1)
      | ((exists, None), tr1) \<Rightarrow>
     (case createOrGetReplacement w u replacementKey machine exists tr1 of
        (Some err, tr2) \<Rightarrow> ((Inr (Some err), u), tr2)
      | (None, tr2) \<Rightarrow>
     (case waitForProviderID w (clusterNamespace u) (key_Name replacementKey) tr2 of
        (Inl err, tr3) \<Rightarrow> ((Inr (Some err), u), tr3)
      | (Inr newProviderID, tr3) \<Rightarrow>
     (case waitForMatchingNode w newProviderID tr3 of
        (Inl err, tr4) \<Rightarrow> ((Inr (Some err), u), tr4)
      | (Inr node, tr4) \<Rightarrow>
     (case waitForNodeReady w node tr4 of
        (Some err, tr5) \<Rightarrow> ((Inr (Some err), u), tr5)
      | (None, tr5) \<Rightarrow>
     (case UpdateProviderIDsToNodes w u tr5 of
        ((Some err, u'), tr6) \<Rightarrow> ((Inr (Some err), u'), tr6)
      | ((None, u'), tr6) \<Rightarrow>
     (let oldEtcdMemberID = lookupString (oldNodeToEtcdMember u') oldHostName
      in
     (case (if oldEtcdMemberID \<noteq> [] then deleteEtcdMember w oldEtcdMemberID tr6
            else (None, tr6)) of
        (Some err, tr7) \<Rightarrow>
          ((Inr (Some (Wrap err (''unable to delete old etcd member '' @ oldEtcdMemberID))), u'),
           tr7)
      | (None, tr7) \<Rightarrow>
     (let err = w_DeleteMachine w (length tr7) machine;
          tr8 = tr7 @ [(Delete (MachineObj machine), err)]
      in case err of
           Some e \<Rightarrow>
             ((Inr (Some (Wrap e (''error deleting machine '' @ m_Namespace machine @ ''/''
                                    @ m_Name machine))), u'), tr8)
         | None \<Rightarrow> ((Inr None, u'), tr8))))))))))))))"

subsection \<open>Reading a trace\<close>

text \<open>
  The calls a claim about the order of effects singles out: a command run in a pod
  (the upgrader runs only etcdctl there), and the deletion of an object. An event that
  is neither is \<open>quiet\<close>. \<open>etcdRemoval id\<close> holds of the calls that removing the etcd
  member \<open>id\<close> makes: the listing of the etcd pods and \<^verbatim>\<open>etcdctl member remove id\<close> in one
  of them.
\<close>

fun isPodExec :: "event \<Rightarrow> bool" where
  "isPodExec (PodExec opts, err) = True"
| "isPodExec (c, err) = False"

fun isDelete :: "event \<Rightarrow> bool" where
  "isDelete (Delete object, err) = True"
| "isDelete (c, err) = False"

definition quiet :: "event \<Rightarrow> bool" where
  "quiet e = (\<not> isPodExec e \<and> \<not> isDelete e)"

definition etcdRemoval :: "string \<Rightarrow> event \<Rightarrow> bool" where
  "etcdRemoval etcdMemberId e =
     (fst e = PodsList ''component=etcd''
      \<or> (\<exists>pod. fst e = PodExec (etcdctlForPod_opts pod [''member'', ''remove'', etcdMemberId])))"

text \<open>
  \<open>appendsQuiet f\<close>: whatever the trace it starts from, the step \<open>f\<close> only appends to it,
  and what it appends is quiet.
\<close>

definition appendsQuiet :: "(trace \<Rightarrow> 'a \<times> trace) \<Rightarrow> bool" where
  "appendsQuiet f = (\<forall>s. \<exists>a. snd (f s) = s @ a \<and> list_all quiet a)"

subsection \<open>Worlds for the examples\<close>

text \<open>
  A world in which every call fails and no poll gets a second attempt; the examples
  override the oracles they need.
\<close>

definition unavailable :: error where
  "unavailable = Failure ''unavailable''"

definition baseWorld :: world where
  "baseWorld =
     \<lparr>w_NewProviderID = (\<lambda>id. Inl unavailable),
      w_ParseTolerant = (\<lambda>s. Inl unavailable),
      w_UnmarshalMembers = (\<lambda>s. Inl unavailable),
      w_GetUnstructured = (\<lambda>clock ref. Inl unavailable),
      w_GetMachine = (\<lambda>clock key. Inl unavailable),
      w_GetKubeadmConfig = (\<lambda>clock key. Inl unavailable),
      w_GetSecret = (\<lambda>clock key. Inl unavailable),
      w_CreateMachine = (\<lambda>clock machine. Some unavailable),
      w_CreateUnstructured = (\<lambda>clock infra. Some unavailable),
      w_CreateKubeadmConfig = (\<lambda>clock config. Inl unavailable),
      w_DeleteMachine = (\<lambda>clock machine. Some unavailable),
      w_NewHelper = (\<lambda>clock object. Some unavailable),
      w_Patch = (\<lambda>clock object. Some unavailable),
      w_NodesList = (\<lambda>clock. Inl unavailable),
      w_PodsGet = (\<lambda>clock name. Inl unavailable),
      w_PodsList = (\<lambda>clock selector. Inl unavailable),
      w_PodExec = (\<lambda>clock opts. ([], [], Some unavailable)),
      w_ConfigMapsGet = (\<lambda>clock name. (None, Some unavailable)),
      w_ConfigMapsCreate = (\<lambda>clock cm. Some unavailable),
      w_ticks = (\<lambda>clock. 0)\<rparr>"

definition etcdPod :: Pod where
  "etcdPod = \<lparr>p_Name = ''etcd-cp-0'', p_Namespace = ''kube-system'', p_PodIP = ''10.0.0.1'',
               p_Conditions = []\<rparr>"

section \<open>Properties\<close>

subsection \<open>Name generator\<close>

lemma generateReplacementMachineName_length:
  "generateReplacementMachineName n U = Inr r \<Longrightarrow> int (length r) \<le> DNS1123SubdomainMaxLength"
  unfolding generateReplacementMachineName_def slice_to_def Let_def
  by (auto split: option.splits sum.splits if_splits)

lemma matchesSuffixTail_own:
  "upgradeIDInputRegex_MatchString U \<Longrightarrow> matchesSuffixTail (''upgrade.'' @ U)"
  by (simp add: matchesSuffixTail_def upgradeIDInputRegex_MatchString_def)

lemma not_matchesSuffixTail_before:
  "\<not> matchesSuffixTail (x @ ''.upgrade.'' @ U)"
proof -
  have "drop 8 ((x @ ''.upgrade'') @ (''.'' @ U))
          = drop 8 (x @ ''.upgrade'') @ drop (8 - length (x @ ''.upgrade'')) (''.'' @ U)"
    by (rule drop_append)
  then have "drop 8 (x @ ''.upgrade.'' @ U) = drop 8 (x @ ''.upgrade'') @ ''.'' @ U"
    by simp
  moreover have "\<not> isDigit CHR ''.''"
    by (simp add: isDigit_def)
  ultimately show ?thesis
    by (simp add: matchesSuffixTail_def del: drop_append)
qed

lemma findSuffixTailFrom_generated:
  assumes "upgradeIDInputRegex_MatchString U"
  shows "findSuffixTailFrom i (x @ ''.upgrade.'' @ U)
           = Some (i + length x + 1, i + length x + 9 + length U)"
proof (induction x arbitrary: i)
  case Nil
  have "\<not> matchesSuffixTail (CHR ''.'' # ''upgrade.'' @ U)"
    using not_matchesSuffixTail_before [of "[]" U] by simp
  moreover have "findSuffixTailFrom (Suc i) (''upgrade.'' @ U) = Some (Suc i, Suc i + 8 + length U)"
    using matchesSuffixTail_own [OF assms] by simp
  ultimately show ?case by simp
next
  case (Cons c x)
  have "\<not> matchesSuffixTail (c # x @ ''.upgrade.'' @ U)"
    using not_matchesSuffixTail_before [of "c # x" U] by simp
  then show ?case using Cons.IH [of "Suc i"] by simp
qed

lemma generateReplacementMachineName_shape:
  assumes "generateReplacementMachineName n U = Inr r"
  shows "\<exists>m. r = m @ upgradeSuffix U
           \<and> int (length m) + int (length (upgradeSuffix U)) \<le> DNS1123SubdomainMaxLength"
  using assms
  unfolding generateReplacementMachineName_def slice_to_def Let_def
  by (auto split: option.splits sum.splits if_splits)

lemma generateReplacementMachineName_fixed:
  assumes U: "upgradeIDInputRegex_MatchString U"
    and fit: "int (length m) + int (length (upgradeSuffix U)) \<le> DNS1123SubdomainMaxLength"
  shows "generateReplacementMachineName (m @ upgradeSuffix U) U = Inr (m @ upgradeSuffix U)"
proof -
  have "upgradeIDNameSuffixRegex_FindStringIndex (m @ upgradeSuffix U)
          = Some (length m + 1, length m + 9 + length U)"
    using findSuffixTailFrom_generated [OF U, of 0 m]
    by (simp add: upgradeIDNameSuffixRegex_FindStringIndex_def upgradeSuffix_def)
  moreover have "slice_to (m @ upgradeSuffix U) (int (length m)) = Inr m"
    by (simp add: slice_to_def)
  ultimately show ?thesis
    using fit by (simp add: generateReplacementMachineName_def Let_def)
qed

text \<open>
  C3. For an upgrade id \<open>U\<close> (a non-empty string of digits, as the upgrader accepts
  them) and every machine name \<open>n\<close>, generating the replacement name of the replacement
  name of \<open>n\<close> gives the replacement name of \<open>n\<close>: a name the function returns is
  returned unchanged when the function is applied to it again, and where the first
  application panics the composition panics in the same way.
\<close>

theorem generateReplacementMachineName_idempotent:
  assumes "upgradeIDInputRegex_MatchString U"
  shows "andThen (generateReplacementMachineName n U) (\<lambda>r. generateReplacementMachineName r U)
           = generateReplacementMachineName n U"
proof (cases "generateReplacementMachineName n U")
  case (Inl p)
  then show ?thesis by (simp add: andThen_def)
next
  case (Inr r)
  then obtain m where "r = m @ upgradeSuffix U"
    and "int (length m) + int (length (upgradeSuffix U)) \<le> DNS1123SubdomainMaxLength"
    using generateReplacementMachineName_shape by blast
  then have "generateReplacementMachineName r U = Inr r"
    using generateReplacementMachineName_fixed [OF assms] by simp
  with Inr show ?thesis by (simp add: andThen_def)
qed

theorem generateReplacementMachineName_idempotent_witness:
  "upgradeIDInputRegex_MatchString ''100''
   \<and> generateReplacementMachineName ''cp-0'' ''100'' = Inr ''cp-0.upgrade.100''
   \<and> generateReplacementMachineName ''cp-0.upgrade.100'' ''100'' = Inr ''cp-0.upgrade.100''"
proof -
  have U: "upgradeIDInputRegex_MatchString ''100''"
    by (simp add: upgradeIDInputRegex_MatchString_def isDigit_def)
  have first: "generateReplacementMachineName ''cp-0'' ''100'' = Inr ''cp-0.upgrade.100''"
    by (simp add: generateReplacementMachineName_def upgradeIDNameSuffixRegex_FindStringIndex_def
        matchesSuffixTail_def isDigit_def slice_to_def upgradeSuffix_def
        DNS1123SubdomainMaxLength_def)
  show ?thesis
    using U first generateReplacementMachineName_idempotent [OF U, of "''cp-0''"]
    by (simp add: andThen_def)
qed

text \<open>
  C4. The bound of 253 characters holds for every name the function returns
  (\<open>generateReplacementMachineName_length\<close>), but the function does not return a name
  for every input. A machine name that itself begins with the tail \<^verbatim>\<open>upgrade.<digits>\<close>
  makes \<^verbatim>\<open>index\<close> equal to -1, and an upgrade id of 245 digits makes the suffix longer
  than 253 characters and \<^verbatim>\<open>max\<close> negative: in both cases the slicing panics.
\<close>

theorem generateReplacementMachineName_panics:
  "generateReplacementMachineName ''upgrade.5'' ''1'' = Inl SliceBoundsOutOfRange
   \<and> upgradeIDInputRegex_MatchString (replicate 245 CHR ''1'')
   \<and> generateReplacementMachineName ''cp-0'' (replicate 245 CHR ''1'') = Inl SliceBoundsOutOfRange"
  by (simp add: generateReplacementMachineName_def upgradeIDNameSuffixRegex_FindStringIndex_def
      matchesSuffixTail_def isDigit_def slice_to_def upgradeSuffix_def
      DNS1123SubdomainMaxLength_def upgradeIDInputRegex_MatchString_def list_all_length)

subsection \<open>Object store probe\<close>

text \<open>
  C7. \<^verbatim>\<open>resourceExists(ref)\<close> makes one \<^verbatim>\<open>Get\<close> of the referenced object. It returns true
  exactly when that \<^verbatim>\<open>Get\<close> returns no error; a not-found error gives \<open>(false, nil)\<close>; any
  other error gives false and the error itself (with its stack).
\<close>

theorem resourceExists_get:
  "(fst (fst (resourceExists w ref tr)) \<longleftrightarrow> errorOf (w_GetUnstructured w (length tr) ref) = None)
   \<and> (errorOf (w_GetUnstructured w (length tr) ref) = Some NotFound
        \<longrightarrow> fst (resourceExists w ref tr) = (False, None))
   \<and> (\<forall>e. errorOf (w_GetUnstructured w (length tr) ref) = Some e \<and> e \<noteq> NotFound
        \<longrightarrow> fst (resourceExists w ref tr) = (False, Some (WithStack e)))
   \<and> snd (resourceExists w ref tr)
        = tr @ [(GetUnstructured ref, errorOf (w_GetUnstructured w (length tr) ref))]"
  by (simp add: resourceExists_def Let_def IsNotFound_def split: option.splits)

theorem resourceExists_get_witness:
  "fst (resourceExists
          (baseWorld\<lparr>w_GetUnstructured := (\<lambda>clock ref.
              if ref_Name ref = ''absent'' then Inl NotFound else Inl unavailable)\<rparr>)
          \<lparr>ref_APIVersion = ''v1'', ref_Kind = ''Machine'', ref_Namespace = ''ns'',
           ref_Name = ''absent''\<rparr> []) = (False, None)
   \<and> fst (resourceExists
          (baseWorld\<lparr>w_GetUnstructured := (\<lambda>clock ref.
              if ref_Name ref = ''absent'' then Inl NotFound else Inl unavailable)\<rparr>)
          \<lparr>ref_APIVersion = ''v1'', ref_Kind = ''Machine'', ref_Namespace = ''ns'',
           ref_Name = ''other''\<rparr> []) = (False, Some (WithStack unavailable))"
  using resourceExists_get
    [of "baseWorld\<lparr>w_GetUnstructured := (\<lambda>clock ref.
              if ref_Name ref = ''absent'' then Inl NotFound else Inl unavailable)\<rparr>"
        "\<lparr>ref_APIVersion = ''v1'', ref_Kind = ''Machine'', ref_Namespace = ''ns'',
           ref_Name = ''absent''\<rparr>" "[]"]
    resourceExists_get
    [of "baseWorld\<lparr>w_GetUnstructured := (\<lambda>clock ref.
              if ref_Name ref = ''absent'' then Inl NotFound else Inl unavailable)\<rparr>"
        "\<lparr>ref_APIVersion = ''v1'', ref_Kind = ''Machine'', ref_Namespace = ''ns'',
           ref_Name = ''other''\<rparr>" "[]"]
  by (simp add: errorOf_def unavailable_def)

subsection \<open>Etcd controller\<close>

lemma etcdctlForPod_opts_Command:
  "exec_Command (etcdctlForPod_opts pod args)
     = [''sh'', ''-c'',
        Join ([''ETCDCTL_API=3'', ''etcdctl'', ''--cacert'', etcdCACertFile,
               ''--cert'', etcdCertFile, ''--key'', etcdKeyFile,
               ''--endpoints'', ''https://'' @ p_PodIP pod @ '':2379''] @ args) '' '']
       @ args"
  by (simp add: etcdctlForPod_opts_def Let_def)

text \<open>
  C2. The command that reaches \<^verbatim>\<open>PodExec\<close> holds the caller's arguments twice: once
  inside the shell string after \<^verbatim>\<open>sh -c\<close>, and once more as further elements of the
  argument vector (\<open>etcdctlForPod_opts_Command\<close>). Removing member \<^verbatim>\<open>8e9e05c52164694d\<close>
  through the one etcd pod of the example runs this command.
\<close>

theorem deleteEtcdMember_command_repeats_args:
  "snd (deleteEtcdMember
          (baseWorld\<lparr>w_PodsList := (\<lambda>clock selector. Inr [etcdPod]),
                      w_PodExec := (\<lambda>clock opts. (''Member removed'', [], None))\<rparr>)
          ''8e9e05c52164694d'' [])
     = [(PodsList ''component=etcd'', None),
        (PodExec \<lparr>exec_Namespace = ''kube-system'', exec_Name = ''etcd-cp-0'',
                  exec_Command =
                    [''sh'', ''-c'',
                     ''ETCDCTL_API=3 etcdctl --cacert /etc/kubernetes/pki/etcd/ca.crt --cert /etc/kubernetes/pki/etcd/peer.crt --key /etc/kubernetes/pki/etcd/peer.key --endpoints https://10.0.0.1:2379 member remove 8e9e05c52164694d'',
                     ''member'', ''remove'', ''8e9e05c52164694d'']\<rparr>, None)]"
  by (simp add: deleteEtcdMember_def etcdctl_def listEtcdPods_def etcdctlForPod_def
      etcdctlForPod_opts_def etcdPod_def errorOf_def Let_def
      etcdCACertFile_def etcdCertFile_def etcdKeyFile_def)

subsection \<open>Replacing one machine\<close>

lemma quiet_simps [simp]:
  "quiet (GetUnstructured r, e)" "quiet (GetMachine k, e)" "quiet (Create ob, e)"
  "quiet (NodesList, e)" "quiet (PodsGet n, e)" "quiet (PodsList sel, e)"
  "\<not> quiet (PodExec opts, e)" "\<not> quiet (Delete ob, e)"
  by (simp_all add: quiet_def)

lemma appendsQuietD:
  "appendsQuiet f \<Longrightarrow> f s = (r, s') \<Longrightarrow> \<exists>a. s' = s @ a \<and> list_all quiet a"
  unfolding appendsQuiet_def by (metis snd_conv)

lemma resourceExists_appends: "appendsQuiet (resourceExists w ref)"
  by (simp add: appendsQuiet_def resourceExists_def Let_def split: option.splits)

lemma createOrGetReplacement_appends: "appendsQuiet (createOrGetReplacement w u k m ex)"
  by (simp add: appendsQuiet_def createOrGetReplacement_def Let_def split: option.splits sum.splits)

lemma PollImmediate_appends:
  assumes cond: "appendsQuiet condition"
  shows "appendsQuiet (PollImmediate n condition)"
proof -
  have "\<exists>a. snd (PollImmediate n condition tr) = tr @ a \<and> list_all quiet a" for tr
  proof (induction n arbitrary: tr)
    case 0
    obtain c s where cs: "condition tr = (c, s)" by (cases "condition tr")
    from appendsQuietD [OF cond cs] obtain a where "s = tr @ a" "list_all quiet a" by blast
    with cs show ?case by (simp split: sum.splits option.splits)
  next
    case (Suc n)
    obtain c s where cs: "condition tr = (c, s)" by (cases "condition tr")
    from appendsQuietD [OF cond cs] obtain a where a: "s = tr @ a" "list_all quiet a" by blast
    show ?case
    proof (cases "c = Inr None")
      case True
      from Suc.IH [of s] obtain b where "snd (PollImmediate n condition s) = s @ b" "list_all quiet b"
        by blast
      with a True cs show ?thesis by simp
    next
      case False
      with cs a show ?thesis by (simp split: sum.splits option.splits)
    qed
  qed
  then show ?thesis by (simp add: appendsQuiet_def)
qed


lemma waitForProviderID_condition_appends:
  "appendsQuiet (waitForProviderID_condition w ns name)"
  by (simp add: appendsQuiet_def waitForProviderID_condition_def Let_def
      split: option.splits sum.splits)

lemma waitForProviderID_appends: "appendsQuiet (waitForProviderID w ns name)"
proof -
  have "\<exists>a. snd (waitForProviderID w ns name tr) = tr @ a \<and> list_all quiet a" for tr
  proof -
    obtain p s where ps: "PollImmediate (w_ticks w (length tr))
        (waitForProviderID_condition w ns name) tr = (p, s)"
      by (cases "PollImmediate (w_ticks w (length tr)) (waitForProviderID_condition w ns name) tr")
    from appendsQuietD [OF PollImmediate_appends [OF waitForProviderID_condition_appends] ps]
    obtain a where "s = tr @ a" "list_all quiet a" by blast
    with ps show ?thesis by (simp add: waitForProviderID_def split: sum.splits)
  qed
  then show ?thesis by (simp add: appendsQuiet_def)
qed

lemma waitForMatchingNode_condition_appends:
  "appendsQuiet (waitForMatchingNode_condition w providerID)"
  by (simp add: appendsQuiet_def waitForMatchingNode_condition_def Let_def split: sum.splits)

lemma waitForMatchingNode_appends: "appendsQuiet (waitForMatchingNode w raw)"
proof -
  have "\<exists>a. snd (waitForMatchingNode w raw tr) = tr @ a \<and> list_all quiet a" for tr
  proof (cases "w_NewProviderID w raw")
    case (Inl err)
    then show ?thesis by (simp add: waitForMatchingNode_def)
  next
    case (Inr providerID)
    obtain p s where ps: "PollImmediate (w_ticks w (length tr))
        (waitForMatchingNode_condition w providerID) tr = (p, s)"
      by (cases "PollImmediate (w_ticks w (length tr)) (waitForMatchingNode_condition w providerID) tr")
    from appendsQuietD [OF PollImmediate_appends [OF waitForMatchingNode_condition_appends] ps]
    obtain a where "s = tr @ a" "list_all quiet a" by blast
    with ps Inr show ?thesis by (simp add: waitForMatchingNode_def split: sum.splits)
  qed
  then show ?thesis by (simp add: appendsQuiet_def)
qed

lemma isReady_components_appends: "appendsQuiet (isReady_components w h cs)"
proof -
  have "\<exists>a. snd (isReady_components w h cs tr) = tr @ a \<and> list_all quiet a" for tr
  proof (induction cs arbitrary: tr)
    case Nil
    then show ?case by simp
  next
    case (Cons c cs)
    show ?case
    proof (cases "w_PodsGet w (length tr) (c @ ''-'' @ h)")
      case (Inl err)
      then show ?thesis by (simp add: Let_def)
    next
      case (Inr pod)
      from Cons.IH [of "tr @ [(PodsGet (c @ ''-'' @ h), errorOf (Inr pod :: error + Pod))]"]
      obtain b where "snd (isReady_components w h cs
           (tr @ [(PodsGet (c @ ''-'' @ h), errorOf (Inr pod :: error + Pod))]))
         = (tr @ [(PodsGet (c @ ''-'' @ h), errorOf (Inr pod :: error + Pod))]) @ b"
        "list_all quiet b" by blast
      with Inr show ?thesis by (simp add: Let_def)
    qed
  qed
  then show ?thesis by (simp add: appendsQuiet_def)
qed

lemma waitForNodeReady_condition_appends:
  "appendsQuiet (waitForNodeReady_condition w h)"
proof -
  have "\<exists>a. snd (waitForNodeReady_condition w h tr) = tr @ a \<and> list_all quiet a" for tr
  proof -
    obtain r s where rs: "isReady_components w h components tr = (r, s)"
      by (cases "isReady_components w h components tr")
    from appendsQuietD [OF isReady_components_appends rs]
    obtain a where "s = tr @ a" "list_all quiet a" by blast
    with rs show ?thesis by (simp add: waitForNodeReady_condition_def isReady_def)
  qed
  then show ?thesis by (simp add: appendsQuiet_def)
qed

lemma waitForNodeReady_appends: "appendsQuiet (waitForNodeReady w node)"
proof -
  have "\<exists>a. snd (waitForNodeReady w node tr) = tr @ a \<and> list_all quiet a" for tr
  proof (cases "hostnameForNode node = []")
    case True
    then show ?thesis by (simp add: waitForNodeReady_def)
  next
    case False
    obtain p s where ps: "PollImmediate (w_ticks w (length tr))
        (waitForNodeReady_condition w (hostnameForNode node)) tr = (p, s)"
      by (cases "PollImmediate (w_ticks w (length tr))
                   (waitForNodeReady_condition w (hostnameForNode node)) tr")
    from appendsQuietD [OF PollImmediate_appends [OF waitForNodeReady_condition_appends] ps]
    obtain a where "s = tr @ a" "list_all quiet a" by blast
    with ps False show ?thesis by (simp add: waitForNodeReady_def Let_def split: sum.splits)
  qed
  then show ?thesis by (simp add: appendsQuiet_def)
qed

lemma UpdateProviderIDsToNodes_trace:
  assumes "UpdateProviderIDsToNodes w u tr = ((r, u'), tr')"
  shows "tr' = tr @ [(NodesList, errorOf (w_NodesList w (length tr)))]"
    and "oldNodeToEtcdMember u' = oldNodeToEtcdMember u"
  using assms by (auto simp: UpdateProviderIDsToNodes_def Let_def split: sum.splits)


lemma PollImmediate_success:
  "PollImmediate n condition tr = (Inr x, tr') \<Longrightarrow> \<exists>s. condition s = (Inr (Some x), tr')"
proof (induction n arbitrary: tr)
  case 0
  obtain c s where cs: "condition tr = (c, s)" by (cases "condition tr")
  with 0 show ?case by (auto split: sum.splits option.splits)
next
  case (Suc n)
  obtain c s where cs: "condition tr = (c, s)" by (cases "condition tr")
  show ?case
  proof (cases "c = Inr None")
    case True
    with Suc.prems cs have "PollImmediate n condition s = (Inr x, tr')" by simp
    from Suc.IH [OF this] show ?thesis .
  next
    case False
    with Suc.prems cs show ?thesis by (auto split: sum.splits option.splits)
  qed
qed

lemma waitForNodeReady_success:
  assumes "waitForNodeReady w node tr = (None, tr')"
  shows "hostnameForNode node \<noteq> [] \<and> (\<exists>s. isReady w (hostnameForNode node) s = (True, tr'))"
proof -
  have host: "hostnameForNode node \<noteq> []"
    using assms by (auto simp: waitForNodeReady_def Let_def)
  obtain p s where ps: "PollImmediate (w_ticks w (length tr))
        (waitForNodeReady_condition w (hostnameForNode node)) tr = (p, s)"
    by (cases "PollImmediate (w_ticks w (length tr))
                 (waitForNodeReady_condition w (hostnameForNode node)) tr")
  with assms host obtain d where "p = Inr d" "s = tr'"
    by (auto simp: waitForNodeReady_def Let_def split: sum.splits)
  with ps have "PollImmediate (w_ticks w (length tr))
        (waitForNodeReady_condition w (hostnameForNode node)) tr = (Inr d, tr')"
    by simp
  from PollImmediate_success [OF this]
  obtain s0 where "waitForNodeReady_condition w (hostnameForNode node) s0 = (Inr (Some d), tr')"
    by blast
  then have "isReady w (hostnameForNode node) s0 = (True, tr')"
    by (auto simp: waitForNodeReady_condition_def split: prod.splits if_splits)
  with host show ?thesis by blast
qed

lemma etcdctl_pods_trace:
  "\<exists>a. snd (etcdctl_pods w pods args prev tr) = tr @ a
       \<and> list_all (\<lambda>e. \<exists>pod. fst e = PodExec (etcdctlForPod_opts pod args)) a
       \<and> (pods \<noteq> [] \<and> snd (snd (fst (etcdctl_pods w pods args prev tr))) = None
            \<longrightarrow> a \<noteq> [] \<and> isPodExec (last a) \<and> snd (last a) = None)"
proof (induction pods arbitrary: prev tr)
  case Nil
  then show ?case by simp
next
  case (Cons pod pods)
  obtain out errout err where r1:
    "w_PodExec w (length tr) (etcdctlForPod_opts pod args) = (out, errout, err)"
    by (metis prod_cases3)
  show ?case
  proof (cases err)
    case None
    with r1 show ?thesis by (auto simp: etcdctlForPod_def Let_def)
  next
    case (Some e)
    let ?tr1 = "tr @ [(PodExec (etcdctlForPod_opts pod args), Some e)]"
    from Some r1 have step: "etcdctl_pods w (pod # pods) args prev tr
        = etcdctl_pods w pods args (out, errout, Some e) ?tr1"
      by (simp add: etcdctlForPod_def Let_def)
    from Cons.IH [of "(out, errout, Some e)" ?tr1] obtain a where
      a: "snd (etcdctl_pods w pods args (out, errout, Some e) ?tr1) = ?tr1 @ a"
         "list_all (\<lambda>e. \<exists>pod. fst e = PodExec (etcdctlForPod_opts pod args)) a"
         "pods \<noteq> [] \<and> snd (snd (fst (etcdctl_pods w pods args (out, errout, Some e) ?tr1))) = None
            \<longrightarrow> a \<noteq> [] \<and> isPodExec (last a) \<and> snd (last a) = None"
      by blast
    show ?thesis
    proof (cases pods)
      case Nil
      with step a show ?thesis
        by (intro exI [of _ "[(PodExec (etcdctlForPod_opts pod args), Some e)]"]) auto
    next
      case (Cons p ps)
      with step a show ?thesis
        by (intro exI [of _ "(PodExec (etcdctlForPod_opts pod args), Some e) # a"]) auto
    qed
  qed
qed

lemma deleteEtcdMember_trace:
  assumes "deleteEtcdMember w etcdMemberId tr = (err, tr')"
  shows "\<exists>a. tr' = tr @ a \<and> list_all (etcdRemoval etcdMemberId) a
           \<and> (err = None \<longrightarrow> a \<noteq> [] \<and> isPodExec (last a) \<and> snd (last a) = None)"
proof (cases "w_PodsList w (length tr) ''component=etcd''")
  case (Inl e)
  with assms show ?thesis
    by (auto simp: deleteEtcdMember_def etcdctl_def listEtcdPods_def Let_def etcdRemoval_def)
next
  case (Inr pods)
  let ?tr1 = "tr @ [(PodsList ''component=etcd'', None)]"
  let ?args = "[''member'', ''remove'', etcdMemberId]"
  show ?thesis
  proof (cases pods)
    case Nil
    with assms Inr show ?thesis
      by (auto simp: deleteEtcdMember_def etcdctl_def listEtcdPods_def Let_def etcdRemoval_def
          errorOf_def)
  next
    case (Cons p ps)
    from etcdctl_pods_trace [of w pods ?args "([], [], None)" ?tr1] obtain a where
      a: "snd (etcdctl_pods w pods ?args ([], [], None) ?tr1) = ?tr1 @ a"
         "list_all (\<lambda>e. \<exists>pod. fst e = PodExec (etcdctlForPod_opts pod ?args)) a"
         "pods \<noteq> [] \<and> snd (snd (fst (etcdctl_pods w pods ?args ([], [], None) ?tr1))) = None
            \<longrightarrow> a \<noteq> [] \<and> isPodExec (last a) \<and> snd (last a) = None"
      by blast
    from assms Inr Cons have run: "etcdctl_pods w pods ?args ([], [], None) ?tr1
        = (fst (etcdctl_pods w pods ?args ([], [], None) ?tr1), tr')"
      and err: "err = snd (snd (fst (etcdctl_pods w pods ?args ([], [], None) ?tr1)))"
      by (auto simp: deleteEtcdMember_def etcdctl_def listEtcdPods_def Let_def errorOf_def
          split: prod.splits)
    from run a(1) have tr': "tr' = ?tr1 @ a" by (metis snd_conv)
    have "list_all (etcdRemoval etcdMemberId) ((PodsList ''component=etcd'', None) # a)"
      using a(2) by (auto simp: etcdRemoval_def list_all_iff)
    with tr' a(3) err Cons show ?thesis
      by (intro exI [of _ "(PodsList ''component=etcd'', None) # a"]) auto
  qed
qed

end
